theory Spec2Isabelle
  imports Complex_Main
begin

section \<open>Data model\<close>

text \<open>
  A subtitle cue as the editor holds it. A JavaScript number is modelled as the real it
  denotes, an optional field (\<open>originalText?\<close>, \<open>speaker?\<close>, \<open>confidence?\<close>) as an option
  with \<open>None\<close> for \<open>undefined\<close>. The fields \<open>id\<close> and \<open>text\<close> of the
  source are called \<open>idS\<close> and \<open>textS\<close>.
\<close>

record Subtitle =
  idS :: string
  startTime :: real
  endTime :: real
  textS :: string
  originalText :: "string option"
  speaker :: "string option"
  confidence :: "real option"

text \<open>\<open>a || b\<close> where \<open>a\<close> is a string or \<open>undefined\<close>: the empty string is falsy.\<close>

fun jsOr :: "string option \<Rightarrow> string \<Rightarrow> string" where
  "jsOr None d = d"
| "jsOr (Some a) d = (if a = [] then d else a)"

text \<open>Two cues, used in examples.\<close>

definition cueHi :: Subtitle where
  "cueHi = \<lparr>idS = ''c1'', startTime = 0, endTime = 2, textS = ''Hi'', originalText = None,
            speaker = None, confidence = None\<rparr>"

definition cueThere :: Subtitle where
  "cueThere = \<lparr>idS = ''c2'', startTime = 2, endTime = 5, textS = ''There'', originalText = None,
               speaker = None, confidence = None\<rparr>"

section \<open>Double-precision arithmetic\<close>

text \<open>
  A JavaScript number is an IEEE 754 double. Finite doubles are modelled as the reals they
  denote, and an arithmetic operation as the exact operation followed by rounding to the
  nearest double, ties to the even significand. \<open>binExponent\<close> is the exponent of the
  binade of a positive number, not below \<open>-1022\<close> (the subnormal range); a double is an
  integer multiple of \<open>ulp\<close>, which is \<open>2^-52\<close> times the power of two of its binade.
  Results of magnitude \<open>2^1024\<close> or more, which the machine replaces by infinity, are
  outside the model, as are NaN and the sign of zero.
\<close>

fun halvings :: "nat \<Rightarrow> real \<Rightarrow> nat" where
  "halvings 0 x = 0"
| "halvings (Suc k) x = (if x < 2 then 0 else Suc (halvings k (x / 2)))"

fun doublings :: "nat \<Rightarrow> real \<Rightarrow> nat" where
  "doublings 0 x = 0"
| "doublings (Suc k) x = (if 1 \<le> x then 0 else Suc (doublings k (2 * x)))"

definition binExponent :: "real \<Rightarrow> int" where
  "binExponent x = (if 1 \<le> x then int (halvings 1023 x) else - int (doublings 1022 x))"

definition pow2 :: "int \<Rightarrow> real" where
  "pow2 e = (if 0 \<le> e then 2 ^ nat e else 1 / 2 ^ nat (- e))"

definition ulp :: "real \<Rightarrow> real" where
  "ulp x = pow2 (binExponent x - 52)"

definition roundHalfEven :: "real \<Rightarrow> int" where
  "roundHalfEven y =
     (if y - of_int \<lfloor>y\<rfloor> < 1 / 2 then \<lfloor>y\<rfloor>
      else if 1 / 2 < y - of_int \<lfloor>y\<rfloor> then \<lfloor>y\<rfloor> + 1
      else if even \<lfloor>y\<rfloor> then \<lfloor>y\<rfloor> else \<lfloor>y\<rfloor> + 1)"

definition fl :: "real \<Rightarrow> real" where
  "fl x =
     (if x = 0 then 0
      else sgn x * (of_int (roundHalfEven (\<bar>x\<bar> / ulp \<bar>x\<bar>)) * ulp \<bar>x\<bar>))"

definition fadd :: "real \<Rightarrow> real \<Rightarrow> real" where
  "fadd x y = fl (x + y)"

definition fmul :: "real \<Rightarrow> real \<Rightarrow> real" where
  "fmul x y = fl (x * y)"

definition fdiv :: "real \<Rightarrow> real \<Rightarrow> real" where
  "fdiv x y = fl (x / y)"

section \<open>Edit history (App component)\<close>

text \<open>
  The part of the \<open>App\<close> component's state that the history handlers read and write.
  \<open>subtitles\<close> is \<open>None\<close> when the state holds \<open>undefined\<close> (an out-of-range read of
  \<open>history\<close> stored by \<open>undo\<close> or \<open>redo\<close>). \<open>autosaved\<close> records the calls of
  \<open>mockBackend.saveUserWork\<close>, newest last.
\<close>

record editor =
  currentUser :: "string option"
  mediaUrl :: "string option"
  mediaName :: string
  subtitles :: "Subtitle list option"
  history :: "Subtitle list list"
  historyIndex :: int
  dubAudioUrl :: "string option"
  autosaved :: "(string \<times> Subtitle list \<times> string) list"

definition initialEditor :: editor where
  "initialEditor =
     \<lparr>currentUser = None, mediaUrl = None, mediaName = ''Untitled Project'',
      subtitles = Some [], history = [], historyIndex = - 1, dubAudioUrl = None,
      autosaved = []\<rparr>"

text \<open>\<open>xs.slice(0, e)\<close>: a negative end counts from the end of the array.\<close>

definition jsSlice0 :: "'a list \<Rightarrow> int \<Rightarrow> 'a list" where
  "jsSlice0 xs e = take (nat (if e < 0 then int (length xs) + e else e)) xs"

text \<open>\<open>xs[i]\<close>: \<open>undefined\<close> outside the array.\<close>

definition jsIndex :: "'a list \<Rightarrow> int \<Rightarrow> 'a option" where
  "jsIndex xs i = (if 0 \<le> i \<and> i < int (length xs) then Some (xs ! nat i) else None)"

definition addToHistory :: "Subtitle list \<Rightarrow> editor \<Rightarrow> editor" where
  "addToHistory newSubtitles s =
     (let newHistory = jsSlice0 (history s) (historyIndex s + 1) @ [newSubtitles];
          s1 = s\<lparr>history := newHistory, historyIndex := int (length newHistory) - 1\<rparr>
      in case currentUser s of
           None \<Rightarrow> s1
         | Some uid \<Rightarrow> s1\<lparr>autosaved := autosaved s @ [(uid, newSubtitles, mediaName s)]\<rparr>)"

definition undo :: "editor \<Rightarrow> editor" where
  "undo s =
     (if historyIndex s > 0
      then s\<lparr>historyIndex := historyIndex s - 1,
             subtitles := jsIndex (history s) (historyIndex s - 1)\<rparr>
      else s)"

definition redo :: "editor \<Rightarrow> editor" where
  "redo s =
     (if historyIndex s < int (length (history s)) - 1
      then s\<lparr>historyIndex := historyIndex s + 1,
             subtitles := jsIndex (history s) (historyIndex s + 1)\<rparr>
      else s)"

text \<open>\<open>handleReset\<close>; the argument is the answer of \<open>window.confirm\<close>.\<close>

definition handleReset :: "bool \<Rightarrow> editor \<Rightarrow> editor" where
  "handleReset confirmed s =
     (if confirmed
      then s\<lparr>subtitles := Some [], history := [], historyIndex := - 1,
             mediaUrl := None, dubAudioUrl := None\<rparr>
      else s)"

text \<open>
  \<open>handleFileUpload\<close>: \<open>None\<close> when no file was chosen, otherwise the file's name and the
  object URL made for it.
\<close>

definition handleFileUpload :: "(string \<times> string) option \<Rightarrow> editor \<Rightarrow> editor" where
  "handleFileUpload file s =
     (case file of
        None \<Rightarrow> s
      | Some (name, url) \<Rightarrow>
          s\<lparr>subtitles := Some [], history := [], historyIndex := - 1, dubAudioUrl := None,
            mediaName := name, mediaUrl := Some url\<rparr>)"

text \<open>The \<open>onSelectFile\<close> callback given to the Drive picker (import from Drive).\<close>

definition onSelectFile :: "string \<Rightarrow> string \<Rightarrow> editor \<Rightarrow> editor" where
  "onSelectFile url name s =
     s\<lparr>mediaName := name, mediaUrl := Some url, subtitles := Some [], history := [],
       dubAudioUrl := None\<rparr>"

text \<open>
  \<open>loadUserProject\<close>, given what \<open>mockBackend.loadUserWork\<close> returned: nothing, or the
  saved cues and media name.
\<close>

definition loadUserProject :: "(Subtitle list \<times> string option) option \<Rightarrow> editor \<Rightarrow> editor" where
  "loadUserProject data s =
     (case data of
        None \<Rightarrow> s
      | Some (subs, savedName) \<Rightarrow>
          s\<lparr>subtitles := Some subs, history := [subs], historyIndex := 0,
            mediaName := jsOr savedName ''Untitled Project''\<rparr>)"

text \<open>
  Sequences of commits (\<open>addToHistory\<close>), undos and redos, run from the initial state.
\<close>

datatype history_op = Commit "Subtitle list" | Undo | Redo

fun applyOp :: "history_op \<Rightarrow> editor \<Rightarrow> editor" where
  "applyOp (Commit snap) s = addToHistory snap s"
| "applyOp Undo s = undo s"
| "applyOp Redo s = redo s"

definition runOps :: "history_op list \<Rightarrow> editor" where
  "runOps ops = fold applyOp ops initialEditor"

text \<open>The cursor is an index of the history, or \<open>-1\<close> when the history is empty.\<close>

definition cursorValid :: "editor \<Rightarrow> bool" where
  "cursorValid s =
     (if history s = [] then historyIndex s = - 1
      else 0 \<le> historyIndex s \<and> historyIndex s < int (length (history s)))"

section \<open>Offset sync (App component)\<close>

datatype js_error = Error string | TypeError string

text \<open>
  The cue list that \<open>handleSync\<close> builds (its local \<open>newSubtitles\<close>): the offset
  arrives in milliseconds. Here the division and the additions are the exact ones.
\<close>

definition newSubtitles :: "real \<Rightarrow> Subtitle list \<Rightarrow> Subtitle list" where
  "newSubtitles offsetMs subs =
     (let offsetSec = offsetMs / 1000
      in map (\<lambda>sub. sub\<lparr>startTime := max 0 (startTime sub + offsetSec),
                          endTime := max 0 (endTime sub + offsetSec)\<rparr>) subs)"

text \<open>
  The same list as the machine computes it: the division and the two additions round to
  doubles.
\<close>

definition newSubtitlesDouble :: "real \<Rightarrow> Subtitle list \<Rightarrow> Subtitle list" where
  "newSubtitlesDouble offsetMs subs =
     (let offsetSec = fdiv offsetMs 1000
      in map (\<lambda>sub. sub\<lparr>startTime := max 0 (fadd (startTime sub) offsetSec),
                          endTime := max 0 (fadd (endTime sub) offsetSec)\<rparr>) subs)"



section \<open>Translation (geminiService)\<close>

text \<open>
  \<open>new Map(translations.map(t => [t.id, t.translatedText]))\<close>: entries are set in
  order, so the last entry of a key is the one \<open>get\<close> finds. Either field of a parsed
  entry may be absent.
\<close>

definition translationMap ::
  "(string option \<times> string option) list \<Rightarrow> string option \<Rightarrow> string option" where
  "translationMap translations k =
     (case map_of (rev translations) k of None \<Rightarrow> None | Some v \<Rightarrow> v)"

text \<open>
  The value \<open>translateSubtitlesWithGemini\<close> returns, given the parsed response of the
  translation service.
\<close>

definition translateSubtitles ::
  "Subtitle list \<Rightarrow> (string option \<times> string option) list \<Rightarrow> Subtitle list" where
  "translateSubtitles subs translations =
     map (\<lambda>sub. sub\<lparr>originalText := Some (jsOr (originalText sub) (textS sub)),
                     textS := jsOr (translationMap translations (Some (idS sub))) (textS sub)\<rparr>)
       subs"

section \<open>Batch speech pipeline (geminiService)\<close>

text \<open>
  Strings are sequences of code units below 256. The characters of the class
  \<open>[.!?]\<close> and the white space that \<open>trim\<close> removes.
\<close>

definition isTerminator :: "char \<Rightarrow> bool" where
  "isTerminator c = (c = CHR ''.'' \<or> c = CHR ''!'' \<or> c = CHR ''?'')"

definition isWhiteSpace :: "char \<Rightarrow> bool" where
  "isWhiteSpace c = (of_char c \<in> {9, 10, 11, 12, 13, 32, 160 :: nat})"

definition trim :: "string \<Rightarrow> string" where
  "trim s = rev (dropWhile isWhiteSpace (rev (dropWhile isWhiteSpace s)))"

text \<open>
  \<open>text.match(/[^.!?]+[.!?]+|[^.!?]+$/g)\<close>: a match cannot start at a terminator; from
  any other character it takes the longest run of non-terminators and the longest run of
  terminators after it, or the run alone when the text ends there.
\<close>

function matchSentences :: "string \<Rightarrow> string list" where
  "matchSentences [] = []"
| "matchSentences (c # cs) =
     (if isTerminator c then matchSentences cs
      else let body = takeWhile (\<lambda>x. \<not> isTerminator x) (c # cs);
               rest = dropWhile (\<lambda>x. \<not> isTerminator x) (c # cs)
           in (body @ takeWhile isTerminator rest) # matchSentences (dropWhile isTerminator rest))"
  by pat_completeness auto
termination
proof (relation "measure length")
  show "wf (measure length)" by simp
next
  fix c :: char and cs :: string
  show "(cs, c # cs) \<in> measure length" by simp
next
  fix c :: char and cs body rest :: string
  assume "\<not> isTerminator c"
    and "rest = dropWhile (\<lambda>x. \<not> isTerminator x) (c # cs)"
  then have "length (dropWhile isTerminator rest) \<le> length cs"
    using length_dropWhile_le [of isTerminator "dropWhile (\<lambda>x. \<not> isTerminator x) cs"]
      length_dropWhile_le [of "\<lambda>x. \<not> isTerminator x" cs]
    by simp
  then show "(dropWhile isTerminator rest, c # cs) \<in> measure length" by simp
qed

text \<open>The loop of \<open>splitTextIntoChunks\<close> over the sentences, and the push after it.\<close>

definition pushTrimmed :: "string list \<Rightarrow> string \<Rightarrow> string list" where
  "pushTrimmed chunks currentChunk =
     (if trim currentChunk \<noteq> [] then chunks @ [trim currentChunk] else chunks)"

fun packSentences :: "nat \<Rightarrow> string list \<Rightarrow> string \<Rightarrow> string list \<Rightarrow> string list" where
  "packSentences maxChunkSize chunks currentChunk [] = pushTrimmed chunks currentChunk"
| "packSentences maxChunkSize chunks currentChunk (sentence # rest) =
     (if length (currentChunk @ sentence) > maxChunkSize
      then packSentences maxChunkSize (pushTrimmed chunks currentChunk) sentence rest
      else packSentences maxChunkSize chunks (currentChunk @ '' '' @ sentence) rest)"

definition sentencesOf :: "string \<Rightarrow> string list" where
  "sentencesOf txt0 = (if matchSentences txt0 = [] then [txt0] else matchSentences txt0)"

definition splitTextIntoChunks :: "string \<Rightarrow> nat \<Rightarrow> string list" where
  "splitTextIntoChunks txt0 maxChunkSize = packSentences maxChunkSize [] [] (sentencesOf txt0)"

text \<open>Bytes are numbers below 256; \<open>setUint32\<close> and \<open>setUint16\<close> write little-endian
  and reduce their argument modulo \<open>2^32\<close> and \<open>2^16\<close>.\<close>

type_synonym byte = nat

definition u32le :: "nat \<Rightarrow> byte list" where
  "u32le n = [n mod 256, n div 256 mod 256, n div 65536 mod 256, n div 16777216 mod 256]"

definition u16le :: "nat \<Rightarrow> byte list" where
  "u16le n = [n mod 256, n div 256 mod 256]"

definition writeString :: "string \<Rightarrow> byte list" where
  "writeString s = map of_char s"

definition createWavHeader :: "nat \<Rightarrow> nat \<Rightarrow> byte list" where
  "createWavHeader dataLength sampleRate =
     writeString ''RIFF'' @ u32le (36 + dataLength) @ writeString ''WAVE'' @
     writeString ''fmt '' @ u32le 16 @ u16le 1 @ u16le 1 @ u32le sampleRate @
     u32le (sampleRate * 2) @ u16le 2 @ u16le 16 @ writeString ''data'' @ u32le dataLength"

definition concatenateAudioBuffers :: "byte list list \<Rightarrow> byte list" where
  "concatenateAudioBuffers buffers = concat buffers"

text \<open>
  One call of the speech service: the promise is rejected, or it resolves and
  \<open>response.candidates?.[0]?.content?.parts?.[0]?.inlineData?.data\<close> is a string or
  \<open>undefined\<close>. The service is a function of the call's number and its chunk.
\<close>

datatype tts_response = Rejected js_error | Resolved "string option"

type_synonym tts = "nat \<Rightarrow> string \<Rightarrow> tts_response"

text \<open>
  \<open>Math.round((i / n) * 100)\<close>: the division and the multiplication round to doubles;
  \<open>Math.round\<close> gives the integer nearest to its argument, the upper one at a tie.
\<close>

definition progressPercent :: "nat \<Rightarrow> nat \<Rightarrow> nat" where
  "progressPercent i n = nat \<lfloor>fmul (fdiv (real i) (real n)) 100 + 1 / 2\<rfloor>"

text \<open>
  The \<open>for\<close> loop of \<open>generateDubbedAudio\<close> from index \<open>i\<close> on. \<open>progress\<close> collects
  the values given to \<open>onProgress\<close>, in order; \<open>atob\<close> decodes base64 or throws.
\<close>

fun ttsLoop ::
  "tts \<Rightarrow> (string \<Rightarrow> js_error + byte list) \<Rightarrow> nat \<Rightarrow> nat \<Rightarrow> string list \<Rightarrow> nat list \<Rightarrow>
   byte list list \<Rightarrow> nat list \<times> (js_error + byte list list)" where
  "ttsLoop synth atob n i [] progress audioBuffers = (progress, Inr audioBuffers)"
| "ttsLoop synth atob n i (chunk # rest) progress audioBuffers =
     (let progress1 = progress @ [progressPercent i n]
      in case synth i chunk of
           Rejected e \<Rightarrow> (progress1, Inl e)
         | Resolved None \<Rightarrow> ttsLoop synth atob n (Suc i) rest progress1 audioBuffers
         | Resolved (Some base64Audio) \<Rightarrow>
             if base64Audio = [] then ttsLoop synth atob n (Suc i) rest progress1 audioBuffers
             else (case atob base64Audio of
                     Inl e \<Rightarrow> (progress1, Inl e)
                   | Inr bytes \<Rightarrow>
                       ttsLoop synth atob n (Suc i) rest progress1 (audioBuffers @ [bytes])))"

definition NoAudioGenerated :: js_error where
  "NoAudioGenerated = Error ''No audio generated from batches.''"

definition DubbingFailed :: js_error where
  "DubbingFailed = Error ''Failed to generate audio dub.''"

text \<open>
  The body of the \<open>try\<close> block of \<open>generateDubbedAudio\<close>, and the function with its
  \<open>catch\<close>, which replaces every error. The result is the content of the blob whose URL
  the source returns, with the values reported to \<open>onProgress\<close>.
\<close>

definition dubTryBlock ::
  "tts \<Rightarrow> (string \<Rightarrow> js_error + byte list) \<Rightarrow> string \<Rightarrow> nat list \<times> (js_error + byte list)" where
  "dubTryBlock synth atob txt0 =
     (let chunks = splitTextIntoChunks txt0 300
      in case ttsLoop synth atob (length chunks) 0 chunks [] [] of
           (progress, Inl e) \<Rightarrow> (progress, Inl e)
         | (progress, Inr audioBuffers) \<Rightarrow>
             if length audioBuffers = 0 then (progress @ [100], Inl NoAudioGenerated)
             else let rawPcmData = concatenateAudioBuffers audioBuffers;
                      header = createWavHeader (length rawPcmData) 24000
                  in (progress @ [100], Inr (concatenateAudioBuffers [header, rawPcmData])))"

definition generateDubbedAudio ::
  "tts \<Rightarrow> (string \<Rightarrow> js_error + byte list) \<Rightarrow> string \<Rightarrow> nat list \<times> (js_error + byte list)" where
  "generateDubbedAudio synth atob txt0 =
     (case dubTryBlock synth atob txt0 of
        (progress, Inl e) \<Rightarrow> (progress, Inl DubbingFailed)
      | (progress, Inr blob) \<Rightarrow> (progress, Inr blob))"

text \<open>
  Notions for stating the properties: the buffers of the chunks that gave audio, in chunk
  order; that every call returned; and the data-length field of a header (bytes 40 to 43).
\<close>

definition chunkAudio ::
  "tts \<Rightarrow> (string \<Rightarrow> js_error + byte list) \<Rightarrow> nat \<times> string \<Rightarrow> byte list list" where
  "chunkAudio synth atob ic =
     (case synth (fst ic) (snd ic) of
        Resolved (Some b64) \<Rightarrow>
          (if b64 = [] then [] else (case atob b64 of Inr bytes \<Rightarrow> [bytes] | Inl e \<Rightarrow> []))
      | _ \<Rightarrow> [])"

definition producedAudio ::
  "tts \<Rightarrow> (string \<Rightarrow> js_error + byte list) \<Rightarrow> nat \<Rightarrow> string list \<Rightarrow> byte list list" where
  "producedAudio synth atob i chunks = concat (map (chunkAudio synth atob) (enumerate i chunks))"

definition callReturns :: "tts \<Rightarrow> (string \<Rightarrow> js_error + byte list) \<Rightarrow> nat \<times> string \<Rightarrow> bool" where
  "callReturns synth atob ic =
     (case synth (fst ic) (snd ic) of
        Rejected e \<Rightarrow> False
      | Resolved None \<Rightarrow> True
      | Resolved (Some b64) \<Rightarrow> b64 = [] \<or> isl (atob b64) = False)"

definition allCallsReturn ::
  "tts \<Rightarrow> (string \<Rightarrow> js_error + byte list) \<Rightarrow> nat \<Rightarrow> string list \<Rightarrow> bool" where
  "allCallsReturn synth atob i chunks = list_all (callReturns synth atob) (enumerate i chunks)"

definition dataLengthField :: "byte list \<Rightarrow> nat" where
  "dataLengthField blob =
     (case take 4 (drop 40 blob) of
        [b0, b1, b2, b3] \<Rightarrow> b0 + 256 * b1 + 65536 * b2 + 16777216 * b3
      | _ \<Rightarrow> 0)"

section \<open>Playback drift correction (VideoPlayer component)\<close>

record media =
  currentTime :: real
  paused :: bool

text \<open>
  \<open>video\<close> and \<open>audio\<close> are the two refs (\<open>None\<close> for \<open>null\<close>); \<open>reported\<close> collects
  the arguments of the \<open>onTimeUpdate\<close> callback.
\<close>

record player =
  video :: "media option"
  audio :: "media option"
  useDub :: bool
  isSeeking :: bool
  reported :: "real list"

definition handleTimeUpdate :: "real \<Rightarrow> player \<Rightarrow> player" where
  "handleTimeUpdate time p =
     (if \<not> isSeeking p then
        (let p1 = p\<lparr>reported := reported p @ [time]\<rparr>
         in case (video p, audio p) of
              (Some v, Some a) \<Rightarrow>
                if useDub p \<and> \<not> paused a \<and> \<bar>currentTime a - currentTime v\<bar> > 3 / 10
                then p1\<lparr>audio := Some (a\<lparr>currentTime := currentTime v\<rparr>)\<rparr>
                else p1
            | _ \<Rightarrow> p1)
      else p)"

section \<open>Login (mockBackend)\<close>

datatype UserRole = RoleUser | RoleAdmin

record User =
  idU :: string
  email :: string
  name :: string
  role :: UserRole
  createdAt :: nat
  lastLoginAt :: nat
  googleDriveConnected :: bool

text \<open>A session's \<open>id\<close> is \<open>s_\<close> followed by its start time, and is left out.\<close>

record SessionLog =
  userId :: string
  userEmail :: string
  sessionStart :: nat

text \<open>The three local-storage entries that \<open>login\<close> reads and writes.\<close>

record backend =
  users :: "User list"
  sessions :: "SessionLog list"
  activeUid :: "string option"

text \<open>\<open>toLowerCase\<close> on code units below 256.\<close>

definition lowerChar :: "char \<Rightarrow> char" where
  "lowerChar c =
     (let k = (of_char c :: nat)
      in if (65 \<le> k \<and> k \<le> 90) \<or> (192 \<le> k \<and> k \<le> 222 \<and> k \<noteq> 215) then char_of (k + 32) else c)"

definition toLowerCase :: "string \<Rightarrow> string" where
  "toLowerCase s = map lowerChar s"

fun findIndex :: "('a \<Rightarrow> bool) \<Rightarrow> 'a list \<Rightarrow> nat option" where
  "findIndex P [] = None"
| "findIndex P (x # xs) = (if P x then Some 0 else map_option Suc (findIndex P xs))"

definition startSession :: "nat \<Rightarrow> User \<Rightarrow> backend \<Rightarrow> backend" where
  "startSession now u b =
     b\<lparr>sessions := sessions b @ [\<lparr>userId = idU u, userEmail = email u, sessionStart = now\<rparr>]\<rparr>"

definition adminUser :: "nat \<Rightarrow> User" where
  "adminUser now =
     \<lparr>idU = ''admin_static_root'', email = ''admin@amina.work'', name = ''Oussanat (Admin)'',
      role = RoleAdmin, createdAt = 0, lastLoginAt = now, googleDriveConnected = True\<rparr>"

definition matchesIdentifier :: "string \<Rightarrow> User \<Rightarrow> bool" where
  "matchesIdentifier identifier u =
     (toLowerCase (email u) = toLowerCase identifier \<or> name u = identifier)"

text \<open>
  \<open>login\<close>, with \<open>Date.now()\<close> as \<open>now\<close>. The user found is an element of the array and
  is changed in place; it is then written again at the first index holding its id.
\<close>

definition login :: "nat \<Rightarrow> string \<Rightarrow> string \<Rightarrow> backend \<Rightarrow> (js_error + User) \<times> backend" where
  "login now identifier password b =
     (if identifier = ''oussanat'' \<and> password = ''oussanat98''
      then (Inr (adminUser now),
            (startSession now (adminUser now) b)\<lparr>activeUid := Some (idU (adminUser now))\<rparr>)
      else
        (case findIndex (matchesIdentifier identifier) (users b) of
           None \<Rightarrow>
             (Inl (Error ''Invalid credentials. Please check your username/email and password.''), b)
         | Some j \<Rightarrow>
             (let user = (users b ! j)\<lparr>lastLoginAt := now\<rparr>;
                  users1 = (users b)[j := user];
                  users2 = (case findIndex (\<lambda>u. idU u = idU user) users1 of
                              None \<Rightarrow> users b
                            | Some k \<Rightarrow> users1[k := user])
              in (Inr user,
                  (startSession now user (b\<lparr>users := users2\<rparr>))\<lparr>activeUid := Some (idU user)\<rparr>))))"

section \<open>Inputs used in the examples\<close>

text \<open>
  A text of three sentences of 300, 150 and 150 characters with no space between them, and
  a text of three sentences of 300 characters each.
\<close>

definition overflowText :: string where
  "overflowText =
     replicate 299 CHR ''a'' @ ''.'' @ replicate 149 CHR ''b'' @ ''.'' @
     replicate 149 CHR ''c'' @ ''.''"

definition threeChunkText :: string where
  "threeChunkText =
     replicate 299 CHR ''a'' @ ''.'' @ replicate 299 CHR ''b'' @ ''.'' @
     replicate 299 CHR ''c'' @ ''.''"



text \<open>
  A speech service that never returns audio; one that returns audio for every call but the
  second; and the values of \<open>atob\<close> on the two base64 strings the latter returns.
\<close>

definition silentSynth :: tts where
  "silentSynth i chunk = Resolved None"

definition secondSilentSynth :: tts where
  "secondSilentSynth i chunk =
     (if i = 1 then Resolved None else if i = 0 then Resolved (Some ''QQ=='')
      else Resolved (Some ''Qg==''))"

text \<open>A speech service whose second call is rejected.\<close>

definition secondRejectedSynth :: tts where
  "secondRejectedSynth i chunk =
     (if i = 1 then Rejected (Error ''503'') else Resolved (Some ''QQ==''))"

definition atobSample :: "string \<Rightarrow> js_error + byte list" where
  "atobSample s =
     (if s = ''QQ=='' then Inr [65] else if s = ''Qg=='' then Inr [66]
      else Inl (Error ''InvalidCharacterError''))"

text \<open>A stored user, for examples.\<close>

definition amina :: User where
  "amina = \<lparr>idU = ''u_1'', email = ''Amina@Work.io'', name = ''amina'', role = RoleUser,
            createdAt = 5, lastLoginAt = 5, googleDriveConnected = False\<rparr>"

section \<open>Properties of double-precision rounding\<close>









section \<open>Properties of the edit history\<close>

lemma history_addToHistory:
  "history (addToHistory snap s) = jsSlice0 (history s) (historyIndex s + 1) @ [snap]"
  by (cases "currentUser s") (simp_all add: addToHistory_def Let_def)

lemma historyIndex_addToHistory:
  "historyIndex (addToHistory snap s) = int (length (history (addToHistory snap s))) - 1"
  by (cases "currentUser s") (simp_all add: addToHistory_def Let_def)

lemma redo_addToHistory: "redo (addToHistory snap s) = addToHistory snap s"
  by (simp add: redo_def historyIndex_addToHistory)

lemma history_undo: "history (undo s) = history s"
  by (simp add: undo_def)

lemma cursorValid_applyOp: "cursorValid s \<Longrightarrow> cursorValid (applyOp op s)"
proof (cases op)
  case (Commit snap)
  show ?thesis
    by (simp add: Commit cursorValid_def history_addToHistory historyIndex_addToHistory)
next
  case Undo
  assume "cursorValid s"
  then show ?thesis
    by (auto simp: Undo cursorValid_def undo_def split: if_splits)
next
  case Redo
  assume "cursorValid s"
  then show ?thesis
    by (auto simp: Redo cursorValid_def redo_def split: if_splits)
qed

lemma cursorValid_fold: "cursorValid s \<Longrightarrow> cursorValid (fold applyOp ops s)"
  by (induction ops arbitrary: s) (simp_all add: cursorValid_applyOp)

lemma cursorValid_runOps: "cursorValid (runOps ops)"
  unfolding runOps_def
  by (rule cursorValid_fold) (simp add: cursorValid_def initialEditor_def)

lemma runOps_snoc: "runOps (ops @ [op]) = applyOp op (runOps ops)"
  by (simp add: runOps_def)

text \<open>Reset, upload and loading the saved project leave a valid cursor as well.\<close>

lemma handleReset_clears:
  "history (handleReset True s) = [] \<and> historyIndex (handleReset True s) = - 1"
  by (simp add: handleReset_def)

lemma handleFileUpload_clears:
  "history (handleFileUpload (Some (n, u)) s) = []
   \<and> historyIndex (handleFileUpload (Some (n, u)) s) = - 1"
  by (simp add: handleFileUpload_def)

lemma cursorValid_other_handlers:
  "cursorValid s \<Longrightarrow> cursorValid (handleReset c s)"
  "cursorValid s \<Longrightarrow> cursorValid (handleFileUpload f s)"
  "cursorValid s \<Longrightarrow> cursorValid (loadUserProject d s)"
  by (auto simp: cursorValid_def handleReset_def handleFileUpload_def loadUserProject_def
      split: option.splits if_splits)

text \<open>
  C3. After any sequence of commits, undos and redos, an undo moves the cursor back by one
  (or leaves it at the lower bound), and a commit of \<open>S2\<close> after it keeps exactly the
  snapshots up to the cursor, appends \<open>S2\<close>, puts the cursor on it, and leaves nothing to
  redo. In particular commit \<open>S0\<close>, commit \<open>S1\<close>, undo (which shows \<open>S0\<close>), commit
  \<open>S2\<close> gives the history \<open>[S0, S2]\<close> with the cursor at 1, and redo changes nothing.
\<close>

theorem undo_commit_truncates:
  "historyIndex (runOps (ops @ [Undo]))
     = (if 0 < historyIndex (runOps ops) then historyIndex (runOps ops) - 1
        else historyIndex (runOps ops))
   \<and> history (runOps (ops @ [Undo, Commit S2]))
       = take (nat (historyIndex (runOps (ops @ [Undo])) + 1)) (history (runOps ops)) @ [S2]
   \<and> historyIndex (runOps (ops @ [Undo, Commit S2])) = historyIndex (runOps (ops @ [Undo])) + 1
   \<and> runOps (ops @ [Undo, Commit S2, Redo]) = runOps (ops @ [Undo, Commit S2])
   \<and> subtitles (runOps [Commit S0, Commit S1, Undo]) = Some S0
   \<and> history (runOps [Commit S0, Commit S1, Undo, Commit S2]) = [S0, S2]
   \<and> historyIndex (runOps [Commit S0, Commit S1, Undo, Commit S2]) = 1
   \<and> runOps [Commit S0, Commit S1, Undo, Commit S2, Redo]
       = runOps [Commit S0, Commit S1, Undo, Commit S2]"
proof -
  let ?s = "runOps ops"
  have e1: "runOps (ops @ [Undo]) = undo ?s"
    by (simp add: runOps_def)
  have e2: "runOps (ops @ [Undo, Commit S2]) = addToHistory S2 (undo ?s)"
    by (simp add: runOps_def)
  have e3: "runOps (ops @ [Undo, Commit S2, Redo]) = redo (addToHistory S2 (undo ?s))"
    by (simp add: runOps_def)
  have "cursorValid (undo ?s)"
    using cursorValid_runOps [of "ops @ [Undo]"] by (simp only: e1)
  then have c: "- 1 \<le> historyIndex (undo ?s)" "historyIndex (undo ?s) < int (length (history ?s))"
    by (auto simp: cursorValid_def history_undo split: if_splits)
  have h: "history (addToHistory S2 (undo ?s))
           = take (nat (historyIndex (undo ?s) + 1)) (history ?s) @ [S2]"
    using c by (simp add: history_addToHistory jsSlice0_def history_undo)
  have i: "historyIndex (addToHistory S2 (undo ?s)) = historyIndex (undo ?s) + 1"
    using c by (simp add: historyIndex_addToHistory h)
  have u: "historyIndex (undo ?s)
           = (if 0 < historyIndex ?s then historyIndex ?s - 1 else historyIndex ?s)"
    by (simp add: undo_def)
  have b: "subtitles (runOps [Commit S0, Commit S1, Undo]) = Some S0
       \<and> history (runOps [Commit S0, Commit S1, Undo, Commit S2]) = [S0, S2]
       \<and> historyIndex (runOps [Commit S0, Commit S1, Undo, Commit S2]) = 1
       \<and> runOps [Commit S0, Commit S1, Undo, Commit S2, Redo]
           = runOps [Commit S0, Commit S1, Undo, Commit S2]"
    by (simp add: runOps_def addToHistory_def undo_def redo_def initialEditor_def jsSlice0_def
        jsIndex_def Let_def)
  show ?thesis
    unfolding e1 e2 e3 using h i u b redo_addToHistory by blast
qed

theorem undo_commit_truncates_witness:
  "history (runOps ([Commit [cueHi], Commit [cueHi, cueThere], Undo, Redo]
                      @ [Undo, Commit [cueThere]]))
     = [[cueHi], [cueThere]]
   \<and> historyIndex (runOps ([Commit [cueHi], Commit [cueHi, cueThere], Undo, Redo]
                      @ [Undo, Commit [cueThere]])) = 1"
  using undo_commit_truncates
    [of "[Commit [cueHi], Commit [cueHi, cueThere], Undo, Redo]" "[cueThere]"]
  by (simp add: runOps_def addToHistory_def undo_def redo_def initialEditor_def jsSlice0_def
      jsIndex_def Let_def)

text \<open>
  C4. After two commits the cursor is 1 and valid. An import from the Drive picker then
  empties the history but leaves the cursor at 1, which is no index of the empty history
  and is not \<open>-1\<close>; an undo in that state stores \<open>undefined\<close> as the cue list. The
  upload handler and the reset handler do set the cursor to \<open>-1\<close>.
\<close>

theorem onSelectFile_keeps_cursor:
  "cursorValid (runOps [Commit [cueHi], Commit [cueHi, cueThere]])
   \<and> history (onSelectFile ''flower.mp4'' ''Project_Flower_Edit_v2.mp4''
              (runOps [Commit [cueHi], Commit [cueHi, cueThere]])) = []
   \<and> historyIndex (onSelectFile ''flower.mp4'' ''Project_Flower_Edit_v2.mp4''
              (runOps [Commit [cueHi], Commit [cueHi, cueThere]])) = 1
   \<and> \<not> cursorValid (onSelectFile ''flower.mp4'' ''Project_Flower_Edit_v2.mp4''
              (runOps [Commit [cueHi], Commit [cueHi, cueThere]]))
   \<and> subtitles (undo (onSelectFile ''flower.mp4'' ''Project_Flower_Edit_v2.mp4''
              (runOps [Commit [cueHi], Commit [cueHi, cueThere]]))) = None"
  by (simp add: runOps_def cursorValid_def onSelectFile_def addToHistory_def undo_def
      initialEditor_def jsSlice0_def jsIndex_def Let_def)

section \<open>Properties of the offset sync\<close>

lemma subtitles_addToHistory: "subtitles (addToHistory snap s) = subtitles s"
  by (cases "currentUser s") (simp_all add: addToHistory_def Let_def)



text \<open>
  The handler's list on doubles has the same shape: every bound is clamped at 0 on its
  own, and the example evaluates to the same cues.
\<close>

lemma newSubtitlesDouble_map:
  "newSubtitlesDouble ms subs
     = map (\<lambda>sub. sub\<lparr>startTime := max 0 (fadd (startTime sub) (fdiv ms 1000)),
                          endTime := max 0 (fadd (endTime sub) (fdiv ms 1000))\<rparr>) subs"
  by (simp add: newSubtitlesDouble_def Let_def)

lemma newSubtitlesDouble_scenario:
  "newSubtitlesDouble (- 1000) [cueHi, cueThere]
     = [cueHi\<lparr>startTime := 0, endTime := 1\<rparr>, cueThere\<lparr>startTime := 1, endTime := 4\<rparr>]"
proof -
  have "fdiv (- 1000) 1000 = - 1" "fadd 0 (- 1) = - 1" "fadd 2 (- 1) = 1" "fadd 5 (- 1) = 4"
    by code_simp+
  then show ?thesis
    by (simp add: newSubtitlesDouble_map cueHi_def cueThere_def)
qed

lemma newSubtitlesDouble_nonneg:
  "list_all (\<lambda>c. 0 \<le> startTime c \<and> 0 \<le> endTime c) (newSubtitlesDouble ms cues)"
  by (simp add: newSubtitlesDouble_map list_all_iff)









text \<open>
  Where the first sync clamps and the second is positive the two differ by much more: back
  by a second and forward by a second moves the cue \<open>{0, 2}\<close> to \<open>{1, 2}\<close>.
\<close>

lemma clamped_syncs_differ:
  "newSubtitlesDouble 1000 (newSubtitlesDouble (- 1000) [cueHi])
     = [cueHi\<lparr>startTime := 1, endTime := 2\<rparr>]
   \<and> newSubtitlesDouble (fadd (- 1000) 1000) [cueHi] = [cueHi]"
proof -
  have "fdiv (- 1000) 1000 = - 1" "fdiv 1000 1000 = 1" "fadd 0 (- 1) = - 1" "fadd 2 (- 1) = 1"
    "fadd 0 1 = 1" "fadd 1 1 = 2" "fadd (- 1000) 1000 = 0" "fdiv 0 1000 = 0" "fadd 0 0 = 0"
    "fadd 2 0 = 2"
    by code_simp+
  then show ?thesis
    by (simp add: newSubtitlesDouble_map cueHi_def)
qed

section \<open>Properties of the translation step\<close>

lemma translate_missing_id_keeps_text:
  "map_of (rev translations) (Some (idS c)) = None
   \<Longrightarrow> translateSubtitles [c] translations
         = [c\<lparr>originalText := Some (jsOr (originalText c) (textS c))\<rparr>]"
  by (simp add: translateSubtitles_def translationMap_def)

lemma translate_keeps_nonempty_originalText:
  "originalText c = Some t \<Longrightarrow> t \<noteq> []
   \<Longrightarrow> map originalText (translateSubtitles [c] translations) = [Some t]"
  by (simp add: translateSubtitles_def)

text \<open>
  C8. A cue with empty text is translated: its \<open>originalText\<close> becomes the empty string
  and its text \<open>Salut\<close>. A second translation whose response omits the cue leaves the text
  alone, but replaces \<open>originalText\<close> by \<open>Salut\<close>: the empty string counts as absent.
\<close>

theorem translate_overwrites_originalText:
  "translateSubtitles [cueHi\<lparr>textS := ''''\<rparr>] [(Some ''c1'', Some ''Salut'')]
     = [cueHi\<lparr>textS := ''Salut'', originalText := Some ''''\<rparr>]
   \<and> translateSubtitles [cueHi\<lparr>textS := ''Salut'', originalText := Some ''''\<rparr>] []
     = [cueHi\<lparr>textS := ''Salut'', originalText := Some ''Salut''\<rparr>]"
  by (simp add: translateSubtitles_def translationMap_def cueHi_def)

section \<open>Properties of the drift correction\<close>

lemma no_correction_within_threshold:
  "video p = Some v \<Longrightarrow> audio p = Some a \<Longrightarrow> \<bar>currentTime a - currentTime v\<bar> \<le> 3 / 10
   \<Longrightarrow> audio (handleTimeUpdate t p) = audio p"
  by (auto simp: handleTimeUpdate_def Let_def split: option.splits)



section \<open>Properties of login\<close>

lemma findIndex_None: "findIndex P xs = None \<longleftrightarrow> (\<forall>x \<in> set xs. \<not> P x)"
  by (induction xs) auto

lemma findIndex_Some: "findIndex P xs = Some j \<Longrightarrow> j < length xs \<and> P (xs ! j)"
  by (induction xs arbitrary: j) (auto split: if_splits)

lemma login_not_admin:
  "\<not> (identifier = ''oussanat'' \<and> p = ''oussanat98'')
   \<Longrightarrow> login now identifier p b
       = (case findIndex (matchesIdentifier identifier) (users b) of
           None \<Rightarrow>
             (Inl (Error ''Invalid credentials. Please check your username/email and password.''), b)
         | Some j \<Rightarrow>
             (let user = (users b ! j)\<lparr>lastLoginAt := now\<rparr>;
                  users1 = (users b)[j := user];
                  users2 = (case findIndex (\<lambda>u. idU u = idU user) users1 of
                              None \<Rightarrow> users b
                            | Some k \<Rightarrow> users1[k := user])
              in (Inr user,
                  (startSession now user (b\<lparr>users := users2\<rparr>))\<lparr>activeUid := Some (idU user)\<rparr>)))"
  unfolding login_def by (simp only: if_False)

text \<open>
  C10. Unless the call is the hardcoded admin pair (identifier \<open>oussanat\<close> with password
  \<open>oussanat98\<close>), the password has no influence on \<open>login\<close>: two calls that differ only
  in the password return the same result and leave the same stored state; the call fails
  exactly when no stored user matches the identifier by email (ignoring case) or by exact name,
  and otherwise returns a stored user that matches, with the login time updated. The admin
  pair always returns the static admin user.
\<close>

theorem login_ignores_password:
  assumes "\<not> (identifier = ''oussanat'' \<and> (p1 = ''oussanat98'' \<or> p2 = ''oussanat98''))"
  shows "login now identifier p1 b = login now identifier p2 b
       \<and> (isl (fst (login now identifier p1 b))
            \<longleftrightarrow> (\<forall>u \<in> set (users b). \<not> matchesIdentifier identifier u))
       \<and> (\<forall>u \<in> set (users b). matchesIdentifier identifier u \<longrightarrow>
            (\<exists>u' \<in> set (users b). matchesIdentifier identifier u'
               \<and> fst (login now identifier p1 b) = Inr (u'\<lparr>lastLoginAt := now\<rparr>)))
       \<and> login now ''oussanat'' ''oussanat98'' b
           = (Inr (adminUser now),
              (startSession now (adminUser now) b)\<lparr>activeUid := Some ''admin_static_root''\<rparr>)"
proof -
  have n1: "\<not> (identifier = ''oussanat'' \<and> p1 = ''oussanat98'')"
    and n2: "\<not> (identifier = ''oussanat'' \<and> p2 = ''oussanat98'')"
    using assms by auto
  have a: "login now identifier p1 b = login now identifier p2 b"
    by (simp only: login_not_admin [OF n1] login_not_admin [OF n2])
  have f: "isl (fst (login now identifier p1 b))
            \<longleftrightarrow> (\<forall>u \<in> set (users b). \<not> matchesIdentifier identifier u)"
  proof (cases "findIndex (matchesIdentifier identifier) (users b)")
    case None
    then show ?thesis
      by (simp add: login_not_admin [OF n1] findIndex_None [symmetric])
  next
    case (Some j)
    then have "\<not> (\<forall>u \<in> set (users b). \<not> matchesIdentifier identifier u)"
      using findIndex_None [of "matchesIdentifier identifier" "users b"] by simp
    then show ?thesis using Some
      by (simp add: login_not_admin [OF n1] Let_def)
  qed
  have s: "\<exists>u' \<in> set (users b). matchesIdentifier identifier u'
               \<and> fst (login now identifier p1 b) = Inr (u'\<lparr>lastLoginAt := now\<rparr>)"
    if "u \<in> set (users b)" "matchesIdentifier identifier u" for u
  proof -
    from that obtain j where j: "findIndex (matchesIdentifier identifier) (users b) = Some j"
      using findIndex_None [of "matchesIdentifier identifier" "users b"] by auto
    from findIndex_Some [OF j] have "users b ! j \<in> set (users b)"
      and "matchesIdentifier identifier (users b ! j)" by simp_all
    moreover have "fst (login now identifier p1 b) = Inr ((users b ! j)\<lparr>lastLoginAt := now\<rparr>)"
      using j by (simp add: login_not_admin [OF n1] Let_def)
    ultimately show ?thesis by blast
  qed
  have ad: "login now ''oussanat'' ''oussanat98'' b
           = (Inr (adminUser now),
              (startSession now (adminUser now) b)\<lparr>activeUid := Some ''admin_static_root''\<rparr>)"
    by (simp add: login_def adminUser_def)
  show ?thesis using a f s ad by blast
qed

lemma toLowerCase_examples:
  "toLowerCase ''Amina@Work.io'' = ''amina@work.io''"
  "toLowerCase ''amina@work.io'' = ''amina@work.io''"
  "toLowerCase ''oussanat'' = ''oussanat''"
  by code_simp+

theorem login_ignores_password_witness:
  "\<not> (''amina@work.io'' = ''oussanat'' \<and> (''secret'' = ''oussanat98'' \<or> '''' = ''oussanat98''))
   \<and> login 9 ''amina@work.io'' ''secret'' \<lparr>users = [amina], sessions = [], activeUid = None\<rparr>
       = login 9 ''amina@work.io'' '''' \<lparr>users = [amina], sessions = [], activeUid = None\<rparr>
   \<and> fst (login 9 ''amina@work.io'' ''secret'' \<lparr>users = [amina], sessions = [], activeUid = None\<rparr>)
       = Inr (amina\<lparr>lastLoginAt := 9\<rparr>)"
  using login_ignores_password [of "''amina@work.io''" "''secret''" "''''" 9
      "\<lparr>users = [amina], sessions = [], activeUid = None\<rparr>"]
  by (simp add: login_def Let_def matchesIdentifier_def toLowerCase_examples amina_def)

text \<open>
  The admin pair wins over a stored user whose name is \<open>oussanat\<close>: only there does the
  password change the result.
\<close>

lemma admin_name_shadow:
  "fst (login 9 ''oussanat'' ''x'' \<lparr>users = [amina\<lparr>name := ''oussanat''\<rparr>], sessions = [], activeUid = None\<rparr>)
     = Inr (amina\<lparr>name := ''oussanat'', lastLoginAt := 9\<rparr>)
   \<and> fst (login 9 ''oussanat'' ''oussanat98'' \<lparr>users = [amina\<lparr>name := ''oussanat''\<rparr>], sessions = [], activeUid = None\<rparr>)
     = Inr (adminUser 9)"
  by (simp add: login_def matchesIdentifier_def toLowerCase_examples amina_def Let_def adminUser_def)

section \<open>Properties of the batch speech pipeline\<close>

lemma ttsLoop_all_return:
  "allCallsReturn synth atob i chunks \<Longrightarrow>
   ttsLoop synth atob n i chunks progress audioBuffers
     = (progress @ map (\<lambda>k. progressPercent k n) [i..<i + length chunks],
        Inr (audioBuffers @ producedAudio synth atob i chunks))"
proof (induction chunks arbitrary: i progress audioBuffers)
  case Nil
  show ?case by (simp add: producedAudio_def)
next
  case (Cons c cs)
  from Cons.prems have here: "callReturns synth atob (i, c)"
    and later: "allCallsReturn synth atob (Suc i) cs"
    by (simp_all add: allCallsReturn_def)
  have upt: "[i..<Suc (i + length cs)] = i # [Suc i..<Suc (i + length cs)]"
    by (subst upt_rec) simp
  have pa: "producedAudio synth atob i (c # cs)
             = chunkAudio synth atob (i, c) @ producedAudio synth atob (Suc i) cs"
    by (simp add: producedAudio_def)
  show ?case
  proof (cases "synth i c")
    case (Rejected e)
    with here show ?thesis by (simp add: callReturns_def)
  next
    case (Resolved d)
    show ?thesis
    proof (cases d)
      case None
      with Resolved show ?thesis
        by (simp add: Cons.IH [OF later] upt pa chunkAudio_def del: upt.simps)
    next
      case (Some b64)
      show ?thesis
      proof (cases "b64 = []")
        case True
        with Resolved Some show ?thesis
          by (simp add: Cons.IH [OF later] upt pa chunkAudio_def del: upt.simps)
      next
        case False
        with here Resolved Some obtain bytes where "atob b64 = Inr bytes"
          by (cases "atob b64") (simp_all add: callReturns_def)
        with False Resolved Some show ?thesis
          by (simp add: Cons.IH [OF later] upt pa chunkAudio_def del: upt.simps)
      qed
    qed
  qed
qed

lemma u32le_value:
  "n mod 256 + 256 * (n div 256 mod 256) + 65536 * (n div 65536 mod 256)
     + 16777216 * (n div 16777216 mod 256) = n mod 4294967296" for n :: nat
proof -
  have a: "n mod 65536 = n mod 256 + 256 * (n div 256 mod 256)"
    using mod_mult2_eq [of n 256 256] by simp
  have b: "n mod 16777216 = n mod 65536 + 65536 * (n div 65536 mod 256)"
    using mod_mult2_eq [of n 65536 256] by simp
  have c: "n mod 4294967296 = n mod 16777216 + 16777216 * (n div 16777216 mod 256)"
    using mod_mult2_eq [of n 16777216 256] by simp
  from a b c show ?thesis by simp
qed

lemma length_createWavHeader: "length (createWavHeader n sr) = 44"
  by (simp add: createWavHeader_def writeString_def u32le_def u16le_def)

lemma dataLengthField_header:
  "dataLengthField (createWavHeader n sr @ payload) = n mod 4294967296"
  by (simp add: dataLengthField_def createWavHeader_def writeString_def u32le_def u16le_def
      u32le_value)

lemma dubTryBlock_all_return:
  assumes "allCallsReturn synth atob 0 (splitTextIntoChunks txt0 300)"
  shows "dubTryBlock synth atob txt0
     = (map (\<lambda>k. progressPercent k (length (splitTextIntoChunks txt0 300)))
            [0..<length (splitTextIntoChunks txt0 300)] @ [100],
        if producedAudio synth atob 0 (splitTextIntoChunks txt0 300) = []
        then Inl NoAudioGenerated
        else Inr (createWavHeader
                    (length (concat (producedAudio synth atob 0 (splitTextIntoChunks txt0 300))))
                    24000
                  @ concat (producedAudio synth atob 0 (splitTextIntoChunks txt0 300))))"
  by (simp add: dubTryBlock_def Let_def ttsLoop_all_return [OF assms] concatenateAudioBuffers_def
      del: upt.simps)


lemma chunks_of_Hi: "splitTextIntoChunks ''Hi.'' 300 = [''Hi.'']"
  by code_simp

lemma chunks_of_threeChunkText:
  "splitTextIntoChunks threeChunkText 300
     = [replicate 299 CHR ''a'' @ ''.'', replicate 299 CHR ''b'' @ ''.'',
        replicate 299 CHR ''c'' @ ''.'']"
  by code_simp

lemma progressPercent_examples:
  "progressPercent 0 (Suc 0) = 0"
  "progressPercent 200 201 = 100"
  "progressPercent 0 (Suc (Suc (Suc 0))) = 0"
  "progressPercent (Suc 0) (Suc (Suc (Suc 0))) = 33"
  "progressPercent (Suc (Suc 0)) (Suc (Suc (Suc 0))) = 67"
  "progressPercent 23 40 = 57"
  by code_simp+


text \<open>
  C1 (as amended). Let every synthesis call return and every decoding succeed. A chunk
  whose response carries no audio data (none, or the empty string) adds nothing and the
  loop goes on. The \<open>try\<close> block raises \<open>NoAudioGenerated\<close> exactly when no chunk gave
  audio, and the function then fails with the generic \<open>DubbingFailed\<close> error that its
  \<open>catch\<close> puts in place of every error. Otherwise the result is the 44-byte header
  followed by the buffers of the chunks that gave audio, in chunk order, and the header's
  data-length field is the payload's length modulo \<open>2^32\<close>.
\<close>

theorem dub_pipeline_result:
  assumes "allCallsReturn synth atob 0 (splitTextIntoChunks txt0 300)"
  shows "(snd (generateDubbedAudio synth atob txt0) = Inl DubbingFailed
            \<longleftrightarrow> producedAudio synth atob 0 (splitTextIntoChunks txt0 300) = [])
       \<and> (snd (dubTryBlock synth atob txt0) = Inl NoAudioGenerated
            \<longleftrightarrow> producedAudio synth atob 0 (splitTextIntoChunks txt0 300) = [])
       \<and> (producedAudio synth atob 0 (splitTextIntoChunks txt0 300) \<noteq> [] \<longrightarrow>
            snd (generateDubbedAudio synth atob txt0)
              = Inr (createWavHeader
                       (length (concat (producedAudio synth atob 0 (splitTextIntoChunks txt0 300))))
                       24000
                     @ concat (producedAudio synth atob 0 (splitTextIntoChunks txt0 300))))
       \<and> length (createWavHeader
                    (length (concat (producedAudio synth atob 0 (splitTextIntoChunks txt0 300))))
                    24000) = 44
       \<and> dataLengthField
            (createWavHeader
               (length (concat (producedAudio synth atob 0 (splitTextIntoChunks txt0 300)))) 24000
             @ concat (producedAudio synth atob 0 (splitTextIntoChunks txt0 300)))
           = length (concat (producedAudio synth atob 0 (splitTextIntoChunks txt0 300)))
               mod 2 ^ 32"
  by (simp add: generateDubbedAudio_def dubTryBlock_all_return [OF assms]
      length_createWavHeader dataLengthField_header)


lemma scenarioD_calls:
  "allCallsReturn secondSilentSynth atobSample 0 (splitTextIntoChunks threeChunkText 300)"
  by (simp add: chunks_of_threeChunkText allCallsReturn_def callReturns_def enumerate_eq_zip
      secondSilentSynth_def atobSample_def upt_rec)

lemma scenarioD_audio:
  "producedAudio secondSilentSynth atobSample 0 (splitTextIntoChunks threeChunkText 300)
     = [[65], [66]]"
  by (simp add: chunks_of_threeChunkText producedAudio_def chunkAudio_def enumerate_eq_zip
      secondSilentSynth_def atobSample_def upt_rec)

text \<open>
  Scenario D: three chunks, the second without audio. The result holds the audio of the
  first and the third.
\<close>

theorem dub_pipeline_result_witness:
  "allCallsReturn secondSilentSynth atobSample 0 (splitTextIntoChunks threeChunkText 300)
   \<and> snd (generateDubbedAudio secondSilentSynth atobSample threeChunkText)
       = Inr (createWavHeader 2 24000 @ [65, 66])
   \<and> dataLengthField (createWavHeader 2 24000 @ [65, 66]) = 2"
  using dub_pipeline_result [OF scenarioD_calls] scenarioD_calls
  by (simp add: scenarioD_audio numeral_2_eq_2 [symmetric])


text \<open>
  A rejected call ends the run: the error is the generic one although the first chunk
  gave audio, and 100 is not reported.
\<close>

lemma rejected_call_aborts:
  "generateDubbedAudio secondRejectedSynth atobSample threeChunkText
     = ([0, 33], Inl DubbingFailed)"
  by (simp add: generateDubbedAudio_def dubTryBlock_def chunks_of_threeChunkText
      secondRejectedSynth_def atobSample_def progressPercent_examples)

text \<open>
  C1 as stated fails: when no chunk gives audio, the error the pipeline raises is
  \<open>DubbingFailed\<close>, not \<open>NoAudioGenerated\<close>.
\<close>

theorem dub_error_is_generic:
  "snd (generateDubbedAudio silentSynth atobSample ''Hi.'') = Inl DubbingFailed
   \<and> snd (generateDubbedAudio silentSynth atobSample ''Hi.'') \<noteq> Inl NoAudioGenerated"
  by (simp add: generateDubbedAudio_def dubTryBlock_def chunks_of_Hi silentSynth_def
      DubbingFailed_def NoAudioGenerated_def)
















text \<open>
  What the packing loop does guarantee: a chunk is at most one character longer than the
  maximum, or it is a single sentence, trimmed.
\<close>

lemma length_trim_le: "length (trim s) \<le> length s"
proof -
  have "length (dropWhile isWhiteSpace (rev (dropWhile isWhiteSpace s)))
          \<le> length (rev (dropWhile isWhiteSpace s))"
    by (rule length_dropWhile_le)
  also have "\<dots> \<le> length s"
    by (simp add: length_dropWhile_le)
  finally show ?thesis by (simp add: trim_def)
qed

lemma packSentences_bound:
  assumes "\<forall>c \<in> set chunks. length c \<le> m + 1 \<or> (\<exists>s \<in> A. c = trim s)"
    and "length cur \<le> m + 1 \<or> cur \<in> A"
    and "set ss \<subseteq> A"
    and "c \<in> set (packSentences m chunks cur ss)"
  shows "length c \<le> m + 1 \<or> (\<exists>s \<in> A. c = trim s)"
  using assms
proof (induction ss arbitrary: chunks cur)
  case Nil
  have "length (trim cur) \<le> m + 1 \<or> (\<exists>s \<in> A. trim cur = trim s)"
    using Nil.prems(2) length_trim_le [of cur] by auto
  then show ?case using Nil.prems(1,4)
    by (auto simp: pushTrimmed_def split: if_splits)
next
  case (Cons s ss)
  have p: "\<forall>c \<in> set (pushTrimmed chunks cur). length c \<le> m + 1 \<or> (\<exists>s \<in> A. c = trim s)"
  proof -
    have "length (trim cur) \<le> m + 1 \<or> (\<exists>s \<in> A. trim cur = trim s)"
      using Cons.prems(2) length_trim_le [of cur] by auto
    then show ?thesis using Cons.prems(1)
      by (auto simp: pushTrimmed_def)
  qed
  show ?case
  proof (cases "length (cur @ s) > m")
    case True
    then have "c \<in> set (packSentences m (pushTrimmed chunks cur) s ss)"
      using Cons.prems(4) by simp
    moreover have "length s \<le> m + 1 \<or> s \<in> A" "set ss \<subseteq> A"
      using Cons.prems(3) by simp_all
    ultimately show ?thesis using Cons.IH p by blast
  next
    case False
    then have "c \<in> set (packSentences m chunks (cur @ '' '' @ s) ss)"
      using Cons.prems(4) by simp
    moreover have "length (cur @ '' '' @ s) \<le> m + 1 \<or> cur @ '' '' @ s \<in> A"
      using False by simp
    moreover have "set ss \<subseteq> A" using Cons.prems(3) by simp
    ultimately show ?thesis using Cons.IH Cons.prems(1) by blast
  qed
qed

lemma chunk_length_bound:
  assumes "c \<in> set (splitTextIntoChunks t m)"
  shows "length c \<le> m + 1 \<or> (\<exists>s \<in> set (sentencesOf t). c = trim s)"
  using assms unfolding splitTextIntoChunks_def
  by (rule packSentences_bound [rotated 3]) simp_all

text \<open>
  C7. The text \<open>overflowText\<close> has three sentences of 300, 150 and 150 characters. Its
  second chunk is the second and third sentence joined by a space: 301 characters, more than
  the maximum of 300, though neither sentence is longer than 300.
\<close>

theorem chunk_exceeds_limit:
  "sentencesOf overflowText
     = [replicate 299 CHR ''a'' @ ''.'', replicate 149 CHR ''b'' @ ''.'',
        replicate 149 CHR ''c'' @ ''.'']
   \<and> splitTextIntoChunks overflowText 300
     = [replicate 299 CHR ''a'' @ ''.'',
        replicate 149 CHR ''b'' @ ''.'' @ '' '' @ replicate 149 CHR ''c'' @ ''.'']
   \<and> length (replicate 149 CHR ''b'' @ ''.'' @ '' '' @ replicate 149 CHR ''c'' @ ''.'') = 301"
proof -
  have a: "sentencesOf overflowText
     = [replicate 299 CHR ''a'' @ ''.'', replicate 149 CHR ''b'' @ ''.'',
        replicate 149 CHR ''c'' @ ''.'']"
    by code_simp
  have b: "splitTextIntoChunks overflowText 300
     = [replicate 299 CHR ''a'' @ ''.'',
        replicate 149 CHR ''b'' @ ''.'' @ '' '' @ replicate 149 CHR ''c'' @ ''.'']"
    by code_simp
  show ?thesis using a b by simp
qed

end
